theory Spec2Isabelle
  imports Main
begin

section \<open>The Button component (src/components/Button/Button.tsx)\<close>

subsection \<open>JavaScript primitives the component uses\<close>

text \<open>
  A string is a list of code units; \<^typ>\<open>char\<close> covers the code units below 256.
  \<open>String.prototype.trim\<close> removes white space and line terminators from both ends;
  below 256 these are TAB, LF, VT, FF, CR, SPACE and NBSP.
\<close>

definition isWhiteSpace :: "char \<Rightarrow> bool" where
  "isWhiteSpace c =
     (c = CHR 0x09 \<or> c = CHR 0x0A \<or> c = CHR 0x0B \<or> c = CHR 0x0C \<or> c = CHR 0x0D \<or>
      c = CHR 0x20 \<or> c = CHR 0xA0)"

definition trim :: "string \<Rightarrow> string" where
  "trim s = rev (dropWhile isWhiteSpace (rev (dropWhile isWhiteSpace s)))"

text \<open>
  A destructuring default \<open>{x = d}\<close> applies when the property is missing or
  \<open>undefined\<close>; \<open>None\<close> stands for both.
\<close>

definition withDefault :: "'a option \<Rightarrow> 'a \<Rightarrow> 'a" where
  "withDefault v d = (case v of None \<Rightarrow> d | Some x \<Rightarrow> x)"

text \<open>
  \<open>table[key]\<close> on an object literal: the value stored under the key, \<open>undefined\<close>
  (\<open>None\<close>) when the literal has no such key.
\<close>

definition index :: "('k \<times> string) list \<Rightarrow> 'k \<Rightarrow> string option" where
  "index table k = map_of table k"

text \<open>\<open>${v}\<close> in a template literal: \<open>undefined\<close> prints as the word.\<close>

definition interpolate :: "string option \<Rightarrow> string" where
  "interpolate v = (case v of None \<Rightarrow> ''undefined'' | Some s \<Rightarrow> s)"

text \<open>
  \<open>a || b\<close> for an optional boolean \<open>a\<close> and a boolean \<open>b\<close>: \<open>a\<close> when it is
  truthy, \<open>b\<close> otherwise (\<open>undefined\<close> and \<open>false\<close> are falsy).
\<close>

definition js_or :: "bool option \<Rightarrow> bool \<Rightarrow> bool" where
  "js_or a b = (case a of Some True \<Rightarrow> True | _ \<Rightarrow> b)"

subsection \<open>Data\<close>

datatype Variant = primary | secondary | destructive | outline | ghost

datatype Size = small | medium | large

text \<open>Property values: strings, booleans, functions (event handlers) and \<open>undefined\<close>.\<close>

datatype 'h jsval = JStr string | JBool bool | JFun 'h | JUndefined

text \<open>
  \<open>ButtonProps\<close>: the six properties the component destructures, each optional one as
  an option, and every other property of the props object (the attributes of
  \<open>React.ButtonHTMLAttributes\<close>) in \<open>others\<close>.
\<close>

record ('c, 'h) ButtonProps =
  variant :: "Variant option"
  size_prop :: "Size option"
  isLoading :: "bool option"
  disabled :: "bool option"
  className :: "string option"
  children :: 'c
  others :: "string \<rightharpoonup> 'h jsval"

text \<open>Markup the component writes itself: a tag, its attributes, its children.\<close>

datatype markup = Markup string "(string \<times> string) list" "markup list"

text \<open>
  A child of the rendered element: the value \<open>false\<close> (React renders nothing for it),
  markup of the component's own, or the caller's opaque \<open>children\<close>.
\<close>

datatype 'c child = CFalse | CMarkup markup | CContent 'c

record ('c, 'h) element =
  elemType :: string
  elemProps :: "string \<rightharpoonup> 'h jsval"
  elemChildren :: "'c child list"

subsection \<open>The style tables\<close>

definition buttonVariants :: "(Variant \<times> string) list" where
  "buttonVariants =
     [(primary, ''bg-blue-600 text-white hover:bg-blue-700 focus:ring-blue-500''),
      (secondary, ''bg-gray-600 text-white hover:bg-gray-700 focus:ring-gray-500''),
      (destructive, ''bg-red-600 text-white hover:bg-red-700 focus:ring-red-500''),
      (outline, ''border-2 border-gray-300 text-gray-700 hover:bg-gray-50 focus:ring-gray-500''),
      (ghost, ''text-gray-700 hover:bg-gray-100 focus:ring-gray-500'')]"

definition buttonSizes :: "(Size \<times> string) list" where
  "buttonSizes =
     [(small, ''px-3 py-1.5 text-sm''),
      (medium, ''px-4 py-2 text-base''),
      (large, ''px-6 py-3 text-lg'')]"

definition baseClasses :: string where
  "baseClasses = ''inline-flex items-center justify-center font-medium rounded-md transition-colors focus:outline-none focus:ring-2 focus:ring-offset-2 disabled:opacity-50 disabled:pointer-events-none''"

subsection \<open>The component\<close>

text \<open>The busy indicator: the \<open>svg\<close> of lines 47 to 65.\<close>

definition spinner :: markup where
  "spinner =
     Markup ''svg''
       [(''className'', ''w-4 h-4 mr-2 animate-spin''), (''fill'', ''none''),
        (''viewBox'', ''0 0 24 24'')]
       [Markup ''circle''
          [(''className'', ''opacity-25''), (''cx'', ''12''), (''cy'', ''12''), (''r'', ''10''),
           (''stroke'', ''currentColor''), (''strokeWidth'', ''4'')] [],
        Markup ''path''
          [(''className'', ''opacity-75''), (''fill'', ''currentColor''),
           (''d'', ''M4 12a8 8 0 018-8V0C5.373 0 0 5.373 0 12h4zm2 5.291A7.962 7.962 0 014 12H0c0 3.042 1.135 5.824 3 7.938l3-2.647z'')]
          []]"

text \<open>The property names the parameter list destructures.\<close>

definition recognized :: "string set" where
  "recognized = {''variant'', ''size'', ''isLoading'', ''disabled'', ''className'', ''children''}"

text \<open>\<open>...props\<close>: the props object without the destructured names.\<close>

definition restProps :: "('c, 'h) ButtonProps \<Rightarrow> (string \<rightharpoonup> 'h jsval)" where
  "restProps p = others p |` (- recognized)"

text \<open>
  The expression of line 38, as a function of the four values it reads: the template
  literal joins them with single spaces, and the result is trimmed.
\<close>

definition combinedClasses :: "string \<Rightarrow> string option \<Rightarrow> string option \<Rightarrow> string \<Rightarrow> string" where
  "combinedClasses base variantClasses sizeClasses className' =
     trim (base @ '' '' @ interpolate variantClasses @ '' '' @ interpolate sizeClasses @
           '' '' @ className')"

text \<open>
  The component. The primed names are the destructured parameters, after their
  defaults. The object of the \<open>button\<close>'s props is written left to right:
  \<open>className\<close>, \<open>disabled\<close>, then the spread of the rest, a later entry replacing an
  earlier one of the same name. The children are \<open>isLoading && svg\<close> (the \<open>svg\<close>
  when \<open>isLoading\<close> is true, the value \<open>false\<close> otherwise) and \<open>children\<close>.
\<close>

definition Button :: "('c, 'h) ButtonProps \<Rightarrow> ('c, 'h) element" where
  "Button p =
     (let variant' = withDefault (variant p) primary;
          size' = withDefault (size_prop p) medium;
          isLoading' = withDefault (isLoading p) False;
          disabled' = disabled p;
          className' = withDefault (className p) [];
          children' = children p;
          props = restProps p;
          variantClasses = index buttonVariants variant';
          sizeClasses = index buttonSizes size'
      in \<lparr> elemType = ''button'',
           elemProps =
             [''className'' \<mapsto> JStr (combinedClasses baseClasses variantClasses sizeClasses className'),
              ''disabled'' \<mapsto> JBool (js_or disabled' isLoading')] ++ props,
           elemChildren =
             [if isLoading' then CMarkup spinner else CFalse, CContent children'] \<rparr>)"

subsection \<open>Reading the rendered element\<close>

text \<open>The class string and the disabled flag the element carries.\<close>

definition classOf :: "('c, 'h) element \<Rightarrow> string option" where
  "classOf n = (case elemProps n ''className'' of Some (JStr s) \<Rightarrow> Some s | _ \<Rightarrow> None)"

definition disabledOf :: "('c, 'h) element \<Rightarrow> bool option" where
  "disabledOf n = (case elemProps n ''disabled'' of Some (JBool b) \<Rightarrow> Some b | _ \<Rightarrow> None)"

subsection \<open>Style fragments\<close>

text \<open>
  A style fragment is the sequence of tokens of a class string: its maximal runs of code
  units that are not white space, in order (what \<open>toHaveClass\<close> of the test suite
  reads from the attribute). \<open>cur\<close> is the token being read.
\<close>

fun splitTokens :: "string \<Rightarrow> string \<Rightarrow> string list" where
  "splitTokens cur [] = (if cur = [] then [] else [cur])"
| "splitTokens cur (c # cs) =
     (if isWhiteSpace c then (if cur = [] then splitTokens [] cs else cur # splitTokens [] cs)
      else splitTokens (cur @ [c]) cs)"

definition tokens :: "string \<Rightarrow> string list" where
  "tokens s = splitTokens [] s"

text \<open>The fragments of lines 35 and 36, as they enter the template literal.\<close>

definition variantFragment :: "Variant \<Rightarrow> string list" where
  "variantFragment v = tokens (interpolate (index buttonVariants v))"

definition sizeFragment :: "Size \<Rightarrow> string list" where
  "sizeFragment s = tokens (interpolate (index buttonSizes s))"

text \<open>The style fragment of the rendered element.\<close>

definition styleOf :: "('c, 'h) element \<Rightarrow> string list" where
  "styleOf n = (case classOf n of Some s \<Rightarrow> tokens s | None \<Rightarrow> [])"

text \<open>The busy indicator is present when the spinner is one of the element's children.\<close>

definition busyIndicatorPresent :: "('c, 'h) element \<Rightarrow> bool" where
  "busyIndicatorPresent n = (CMarkup spinner \<in> set (elemChildren n))"

subsection \<open>Activation\<close>

text \<open>
  Modelled from the spec: the Interaction guard of section 4.4. \<open>Button.tsx\<close> has no
  guard of its own: it sets \<open>disabled\<close> on the element and forwards \<open>onClick\<close> with
  the rest props, and the host that dispatches the events is not part of the sources.
  The guard returns false whenever the effective disabled flag (the element's
  \<open>disabled\<close>) is true; otherwise the activation event is handed to the element's
  \<open>onClick\<close> callback, once. A callback acts on the caller's state \<open>'s\<close>; the
  second component counts the invocations.
\<close>

definition shouldActivate :: "bool \<Rightarrow> 'e \<Rightarrow> bool" where
  "shouldActivate effectiveDisabled rawEvent = (\<not> effectiveDisabled)"

definition activate ::
  "('c, 'e \<Rightarrow> 's \<Rightarrow> 's) element \<Rightarrow> 'e \<Rightarrow> 's \<times> nat \<Rightarrow> 's \<times> nat" where
  "activate n rawEvent st =
     (if shouldActivate (disabledOf n = Some True) rawEvent
      then (case elemProps n ''onClick'' of
              Some (JFun f) \<Rightarrow> (f rawEvent (fst st), Suc (snd st))
            | _ \<Rightarrow> st)
      else st)"

definition dispatch ::
  "('c, 'e \<Rightarrow> 's \<Rightarrow> 's) element \<Rightarrow> 'e list \<Rightarrow> 's \<times> nat \<Rightarrow> 's \<times> nat" where
  "dispatch n events st = fold (activate n) events st"

section \<open>Properties\<close>

subsection \<open>The rest props and the disabled flag\<close>

lemma restProps_recognized: "k \<in> recognized \<Longrightarrow> restProps p k = None"
  by (simp add: restProps_def)

lemma restProps_className [simp]: "restProps p ''className'' = None"
  by (simp add: restProps_def recognized_def)

lemma restProps_disabled [simp]: "restProps p ''disabled'' = None"
  by (simp add: restProps_def recognized_def)

lemma js_or_eq: "js_or a b = (a = Some True \<or> b)"
  by (simp add: js_or_def split: option.splits bool.splits)

lemma disabledOf_Button:
  "disabledOf (Button p) = Some (js_or (disabled p) (withDefault (isLoading p) False))"
  by (simp add: disabledOf_def Button_def Let_def map_add_def)

subsection \<open>Tokens of joined and trimmed strings\<close>

lemma splitTokens_sep:
  "isWhiteSpace c \<Longrightarrow> splitTokens cur (a @ c # b) = splitTokens cur a @ splitTokens [] b"
  by (induction a arbitrary: cur) simp_all

lemma splitTokens_blank:
  "\<forall>c \<in> set w. isWhiteSpace c \<Longrightarrow> splitTokens cur w = splitTokens cur []"
proof (induction w arbitrary: cur)
  case Nil
  show ?case by simp
next
  case (Cons c w)
  then have "splitTokens [] w = []" by simp
  with Cons.prems show ?case by simp
qed

lemma splitTokens_trailing:
  "\<forall>c \<in> set w. isWhiteSpace c \<Longrightarrow> splitTokens cur (a @ w) = splitTokens cur a"
proof (induction a arbitrary: cur)
  case Nil
  then show ?case using splitTokens_blank [of w cur] by simp
next
  case (Cons x a)
  then show ?case by simp
qed

lemma tokens_dropWhile: "tokens (dropWhile isWhiteSpace s) = tokens s"
  by (induction s) (simp_all add: tokens_def)

lemma rev_dropWhile_takeWhile:
  "rev (dropWhile P xs) @ rev (takeWhile P xs) = rev xs"
  by (simp flip: rev_append)

lemma trim_decomp:
  "\<exists>w. (\<forall>c \<in> set w. isWhiteSpace c) \<and> dropWhile isWhiteSpace s = trim s @ w"
proof -
  let ?t = "dropWhile isWhiteSpace s"
  have "?t = trim s @ rev (takeWhile isWhiteSpace (rev ?t))"
    using rev_dropWhile_takeWhile [of isWhiteSpace "rev ?t"] by (simp add: trim_def)
  moreover have "\<forall>c \<in> set (rev (takeWhile isWhiteSpace (rev ?t))). isWhiteSpace c"
    by (auto dest: set_takeWhileD)
  ultimately show ?thesis by blast
qed

lemma tokens_trim: "tokens (trim s) = tokens s"
proof -
  obtain w where w: "\<forall>c \<in> set w. isWhiteSpace c" and eq: "dropWhile isWhiteSpace s = trim s @ w"
    using trim_decomp by blast
  have "tokens s = tokens (trim s @ w)"
    using eq tokens_dropWhile [of s] by simp
  also have "\<dots> = tokens (trim s)"
    using w by (simp add: tokens_def splitTokens_trailing)
  finally show ?thesis by simp
qed

lemma tokens_space: "tokens (a @ '' '' @ b) = tokens a @ tokens b"
  by (simp add: tokens_def splitTokens_sep isWhiteSpace_def)

lemma tokens_combinedClasses:
  "tokens (combinedClasses b vc sc c) =
     tokens b @ tokens (interpolate vc) @ tokens (interpolate sc) @ tokens c"
  by (simp only: combinedClasses_def tokens_trim tokens_space)

lemma classOf_Button:
  "classOf (Button p) =
     Some (combinedClasses baseClasses (index buttonVariants (withDefault (variant p) primary))
             (index buttonSizes (withDefault (size_prop p) medium))
             (withDefault (className p) []))"
  by (simp add: classOf_def Button_def Let_def map_add_def)

lemma styleOf_Button:
  "styleOf (Button p) =
     tokens baseClasses @ variantFragment (withDefault (variant p) primary) @
     sizeFragment (withDefault (size_prop p) medium) @ tokens (withDefault (className p) [])"
  by (simp add: styleOf_def classOf_Button tokens_combinedClasses variantFragment_def
        sizeFragment_def)

lemma tokens_extra: "tokens ''extra-token'' = [''extra-token'']"
  by (simp add: tokens_def isWhiteSpace_def)

subsection \<open>The fragments of the tables\<close>

lemma variantFragment_simps:
  "variantFragment primary = [''bg-blue-600'', ''text-white'', ''hover:bg-blue-700'', ''focus:ring-blue-500'']"
  "variantFragment secondary = [''bg-gray-600'', ''text-white'', ''hover:bg-gray-700'', ''focus:ring-gray-500'']"
  "variantFragment destructive = [''bg-red-600'', ''text-white'', ''hover:bg-red-700'', ''focus:ring-red-500'']"
  "variantFragment outline = [''border-2'', ''border-gray-300'', ''text-gray-700'', ''hover:bg-gray-50'', ''focus:ring-gray-500'']"
  "variantFragment ghost = [''text-gray-700'', ''hover:bg-gray-100'', ''focus:ring-gray-500'']"
  by (simp_all add: variantFragment_def index_def buttonVariants_def interpolate_def tokens_def
        isWhiteSpace_def)

lemma sizeFragment_simps:
  "sizeFragment small = [''px-3'', ''py-1.5'', ''text-sm'']"
  "sizeFragment medium = [''px-4'', ''py-2'', ''text-base'']"
  "sizeFragment large = [''px-6'', ''py-3'', ''text-lg'']"
  by (simp_all add: sizeFragment_def index_def buttonSizes_def interpolate_def tokens_def
        isWhiteSpace_def)

lemma tokens_baseClasses:
  "tokens baseClasses =
     [''inline-flex'', ''items-center'', ''justify-center'', ''font-medium'', ''rounded-md'',
      ''transition-colors'', ''focus:outline-none'', ''focus:ring-2'', ''focus:ring-offset-2'',
      ''disabled:opacity-50'', ''disabled:pointer-events-none'']"
  by (simp add: tokens_def baseClasses_def isWhiteSpace_def)

lemma variantFragment_rows:
  "variantFragment v =
     (case v of
        primary \<Rightarrow> [''bg-blue-600'', ''text-white'', ''hover:bg-blue-700'', ''focus:ring-blue-500'']
      | secondary \<Rightarrow> [''bg-gray-600'', ''text-white'', ''hover:bg-gray-700'', ''focus:ring-gray-500'']
      | destructive \<Rightarrow> [''bg-red-600'', ''text-white'', ''hover:bg-red-700'', ''focus:ring-red-500'']
      | outline \<Rightarrow> [''border-2'', ''border-gray-300'', ''text-gray-700'', ''hover:bg-gray-50'',
                    ''focus:ring-gray-500'']
      | ghost \<Rightarrow> [''text-gray-700'', ''hover:bg-gray-100'', ''focus:ring-gray-500''])"
  by (cases v) (simp_all add: variantFragment_simps)

lemma sizeFragment_rows:
  "sizeFragment s =
     (case s of small \<Rightarrow> [''px-3'', ''py-1.5'', ''text-sm'']
      | medium \<Rightarrow> [''px-4'', ''py-2'', ''text-base'']
      | large \<Rightarrow> [''px-6'', ''py-3'', ''text-lg''])"
  by (cases s) (simp_all add: sizeFragment_simps)

text \<open>Each fragment has a token that no other fragment of its table has.\<close>

lemma variant_mark:
  "((case v of primary \<Rightarrow> ''bg-blue-600'' | secondary \<Rightarrow> ''bg-gray-600''
     | destructive \<Rightarrow> ''bg-red-600'' | outline \<Rightarrow> ''border-2'' | ghost \<Rightarrow> ''hover:bg-gray-100'')
    \<in> set (variantFragment w)) = (w = v)"
  by (cases v; cases w) (simp_all add: variantFragment_simps)

lemma size_mark:
  "((case s of small \<Rightarrow> ''px-3'' | medium \<Rightarrow> ''px-4'' | large \<Rightarrow> ''px-6'')
    \<in> set (sizeFragment w)) = (w = s)"
  by (cases s; cases w) (simp_all add: sizeFragment_simps)

lemma set_variantFragment_inj:
  assumes "set (variantFragment v) = set (variantFragment v')"
  shows "v = v'"
proof -
  let ?t = "case v' of primary \<Rightarrow> ''bg-blue-600'' | secondary \<Rightarrow> ''bg-gray-600''
     | destructive \<Rightarrow> ''bg-red-600'' | outline \<Rightarrow> ''border-2'' | ghost \<Rightarrow> ''hover:bg-gray-100''"
  have "?t \<in> set (variantFragment v')"
    by (simp only: variant_mark)
  then have "?t \<in> set (variantFragment v)"
    by (simp only: assms)
  then show ?thesis
    by (simp only: variant_mark)
qed

lemma set_sizeFragment_inj:
  assumes "set (sizeFragment s) = set (sizeFragment s')"
  shows "s = s'"
proof -
  let ?t = "case s' of small \<Rightarrow> ''px-3'' | medium \<Rightarrow> ''px-4'' | large \<Rightarrow> ''px-6''"
  have "?t \<in> set (sizeFragment s')"
    by (simp only: size_mark)
  then have "?t \<in> set (sizeFragment s)"
    by (simp only: assms)
  then show ?thesis
    by (simp only: size_mark)
qed

subsection \<open>The rendered element\<close>

lemma elemChildren_Button:
  "elemChildren (Button p) =
     [if withDefault (isLoading p) False then CMarkup spinner else CFalse, CContent (children p)]"
  by (simp add: Button_def Let_def)

lemma elemProps_Button_rest:
  "k \<notin> recognized \<Longrightarrow> elemProps (Button p) k = others p k"
proof -
  assume k: "k \<notin> recognized"
  then have "k \<noteq> ''className''" and "k \<noteq> ''disabled''"
    by (auto simp: recognized_def)
  moreover have "restProps p k = others p k"
    using k by (simp add: restProps_def)
  ultimately show ?thesis
    by (simp add: Button_def Let_def map_add_def split: option.splits)
qed

lemma index_buttonVariants:
  "index buttonVariants v =
     Some (case v of
        primary \<Rightarrow> ''bg-blue-600 text-white hover:bg-blue-700 focus:ring-blue-500''
      | secondary \<Rightarrow> ''bg-gray-600 text-white hover:bg-gray-700 focus:ring-gray-500''
      | destructive \<Rightarrow> ''bg-red-600 text-white hover:bg-red-700 focus:ring-red-500''
      | outline \<Rightarrow> ''border-2 border-gray-300 text-gray-700 hover:bg-gray-50 focus:ring-gray-500''
      | ghost \<Rightarrow> ''text-gray-700 hover:bg-gray-100 focus:ring-gray-500'')"
  by (cases v) (simp_all add: index_def buttonVariants_def)

lemma index_buttonSizes:
  "index buttonSizes s =
     Some (case s of small \<Rightarrow> ''px-3 py-1.5 text-sm'' | medium \<Rightarrow> ''px-4 py-2 text-base''
           | large \<Rightarrow> ''px-6 py-3 text-lg'')"
  by (cases s) (simp_all add: index_def buttonSizes_def)

lemma distinct_keys:
  "distinct (map fst buttonVariants)" "distinct (map fst buttonSizes)"
  by (simp_all add: buttonVariants_def buttonSizes_def)

lemma unique_row:
  assumes "distinct (map fst table)" and "index table k = Some f"
  shows "\<exists>!g. (k, g) \<in> set table"
proof
  show "(k, f) \<in> set table"
    using assms(2) by (simp add: index_def map_of_SomeD)
next
  fix g assume "(k, g) \<in> set table"
  then have "map_of table k = Some g"
    using assms(1) by simp
  then show "g = f"
    using assms(2) by (simp add: index_def)
qed

subsection \<open>Dispatching activation events\<close>

lemma disabledOf_Button_eq:
  "disabledOf (Button p) = Some (disabled p = Some True \<or> isLoading p = Some True)"
  by (cases "isLoading p") (simp_all add: disabledOf_Button js_or_eq withDefault_def)

lemma elemProps_Button_onClick:
  "elemProps (Button p) ''onClick'' = others p ''onClick''"
  by (rule elemProps_Button_rest) (simp add: recognized_def)

lemma fold_activate_enabled:
  assumes "disabledOf n \<noteq> Some True" and "elemProps n ''onClick'' = Some (JFun f)"
  shows "fold (activate n) events (s, k) = (fold f events s, k + length events)"
  using assms by (induction events arbitrary: s k) (simp_all add: activate_def shouldActivate_def)

lemma fold_activate_disabled:
  assumes "disabledOf n = Some True"
  shows "fold (activate n) events st = st"
  using assms by (induction events) (simp_all add: activate_def shouldActivate_def)

subsection \<open>The properties of the specification\<close>

text \<open>
  C1. For every variant, size and override string, the style fragment of the rendered
  element is the base fragment, then the variant's, then the size's, then the tokens of
  the override, in this order, the first three as the source writes them (line 33 and
  the rows of the two tables): the class string is the four strings joined by single
  spaces and trimmed. The override tokens therefore come after the variant and size
  fragments, and with the override \<open>extra-token\<close> the last token is \<open>extra-token\<close>.
\<close>

theorem C1_composed_style:
  "styleOf (Button (p\<lparr>variant := Some v, size_prop := Some s, className := Some c\<rparr>)) =
     [''inline-flex'', ''items-center'', ''justify-center'', ''font-medium'', ''rounded-md'',
      ''transition-colors'', ''focus:outline-none'', ''focus:ring-2'', ''focus:ring-offset-2'',
      ''disabled:opacity-50'', ''disabled:pointer-events-none''] @
     (case v of
        primary \<Rightarrow> [''bg-blue-600'', ''text-white'', ''hover:bg-blue-700'', ''focus:ring-blue-500'']
      | secondary \<Rightarrow> [''bg-gray-600'', ''text-white'', ''hover:bg-gray-700'', ''focus:ring-gray-500'']
      | destructive \<Rightarrow> [''bg-red-600'', ''text-white'', ''hover:bg-red-700'', ''focus:ring-red-500'']
      | outline \<Rightarrow> [''border-2'', ''border-gray-300'', ''text-gray-700'', ''hover:bg-gray-50'',
                    ''focus:ring-gray-500'']
      | ghost \<Rightarrow> [''text-gray-700'', ''hover:bg-gray-100'', ''focus:ring-gray-500'']) @
     (case s of small \<Rightarrow> [''px-3'', ''py-1.5'', ''text-sm'']
      | medium \<Rightarrow> [''px-4'', ''py-2'', ''text-base'']
      | large \<Rightarrow> [''px-6'', ''py-3'', ''text-lg'']) @
     tokens c \<and>
   classOf (Button (p\<lparr>variant := Some v, size_prop := Some s, className := Some c\<rparr>)) =
     Some (trim (''inline-flex items-center justify-center font-medium rounded-md transition-colors focus:outline-none focus:ring-2 focus:ring-offset-2 disabled:opacity-50 disabled:pointer-events-none'' @
       '' '' @
       (case v of
          primary \<Rightarrow> ''bg-blue-600 text-white hover:bg-blue-700 focus:ring-blue-500''
        | secondary \<Rightarrow> ''bg-gray-600 text-white hover:bg-gray-700 focus:ring-gray-500''
        | destructive \<Rightarrow> ''bg-red-600 text-white hover:bg-red-700 focus:ring-red-500''
        | outline \<Rightarrow> ''border-2 border-gray-300 text-gray-700 hover:bg-gray-50 focus:ring-gray-500''
        | ghost \<Rightarrow> ''text-gray-700 hover:bg-gray-100 focus:ring-gray-500'') @
       '' '' @
       (case s of small \<Rightarrow> ''px-3 py-1.5 text-sm'' | medium \<Rightarrow> ''px-4 py-2 text-base''
        | large \<Rightarrow> ''px-6 py-3 text-lg'') @
       '' '' @ c)) \<and>
   last (styleOf (Button (p\<lparr>className := Some ''extra-token''\<rparr>))) = ''extra-token''"
proof (intro conjI)
  let ?q = "p\<lparr>variant := Some v, size_prop := Some s, className := Some c\<rparr>"
  have "styleOf (Button ?q) = tokens baseClasses @ variantFragment v @ sizeFragment s @ tokens c"
    by (simp add: styleOf_Button withDefault_def)
  then show "styleOf (Button ?q) =
     [''inline-flex'', ''items-center'', ''justify-center'', ''font-medium'', ''rounded-md'',
      ''transition-colors'', ''focus:outline-none'', ''focus:ring-2'', ''focus:ring-offset-2'',
      ''disabled:opacity-50'', ''disabled:pointer-events-none''] @
     (case v of
        primary \<Rightarrow> [''bg-blue-600'', ''text-white'', ''hover:bg-blue-700'', ''focus:ring-blue-500'']
      | secondary \<Rightarrow> [''bg-gray-600'', ''text-white'', ''hover:bg-gray-700'', ''focus:ring-gray-500'']
      | destructive \<Rightarrow> [''bg-red-600'', ''text-white'', ''hover:bg-red-700'', ''focus:ring-red-500'']
      | outline \<Rightarrow> [''border-2'', ''border-gray-300'', ''text-gray-700'', ''hover:bg-gray-50'',
                    ''focus:ring-gray-500'']
      | ghost \<Rightarrow> [''text-gray-700'', ''hover:bg-gray-100'', ''focus:ring-gray-500'']) @
     (case s of small \<Rightarrow> [''px-3'', ''py-1.5'', ''text-sm'']
      | medium \<Rightarrow> [''px-4'', ''py-2'', ''text-base'']
      | large \<Rightarrow> [''px-6'', ''py-3'', ''text-lg'']) @
     tokens c"
    by (simp only: tokens_baseClasses variantFragment_rows sizeFragment_rows)
  have "classOf (Button ?q) =
     Some (trim (baseClasses @ '' '' @ interpolate (index buttonVariants v) @ '' '' @
                 interpolate (index buttonSizes s) @ '' '' @ c))"
    by (simp add: classOf_Button withDefault_def combinedClasses_def)
  then show "classOf (Button ?q) =
     Some (trim (''inline-flex items-center justify-center font-medium rounded-md transition-colors focus:outline-none focus:ring-2 focus:ring-offset-2 disabled:opacity-50 disabled:pointer-events-none'' @
       '' '' @
       (case v of
          primary \<Rightarrow> ''bg-blue-600 text-white hover:bg-blue-700 focus:ring-blue-500''
        | secondary \<Rightarrow> ''bg-gray-600 text-white hover:bg-gray-700 focus:ring-gray-500''
        | destructive \<Rightarrow> ''bg-red-600 text-white hover:bg-red-700 focus:ring-red-500''
        | outline \<Rightarrow> ''border-2 border-gray-300 text-gray-700 hover:bg-gray-50 focus:ring-gray-500''
        | ghost \<Rightarrow> ''text-gray-700 hover:bg-gray-100 focus:ring-gray-500'') @
       '' '' @
       (case s of small \<Rightarrow> ''px-3 py-1.5 text-sm'' | medium \<Rightarrow> ''px-4 py-2 text-base''
        | large \<Rightarrow> ''px-6 py-3 text-lg'') @
       '' '' @ c))"
    by (simp only: index_buttonVariants index_buttonSizes interpolate_def option.case
          baseClasses_def)
  show "last (styleOf (Button (p\<lparr>className := Some ''extra-token''\<rparr>))) = ''extra-token''"
    by (simp add: styleOf_Button withDefault_def tokens_extra del: append_assoc flip: append_assoc)
qed

text \<open>
  C2. The disabled flag of the rendered element is \<open>disabled OR isLoading\<close>, for all four
  combinations of the two booleans, whatever the other properties are; a missing
  \<open>disabled\<close> or \<open>isLoading\<close> counts as false.
\<close>

theorem C2_effective_disabled:
  "disabledOf (Button (p\<lparr>disabled := Some d, isLoading := Some l\<rparr>)) = Some (d \<or> l) \<and>
   disabledOf (Button p) = Some (disabled p = Some True \<or> isLoading p = Some True)"
proof
  show "disabledOf (Button (p\<lparr>disabled := Some d, isLoading := Some l\<rparr>)) = Some (d \<or> l)"
    by (simp add: disabledOf_Button js_or_eq withDefault_def)
  show "disabledOf (Button p) = Some (disabled p = Some True \<or> isLoading p = Some True)"
    by (cases "isLoading p") (simp_all add: disabledOf_Button js_or_eq withDefault_def)
qed

text \<open>
  C3. (Against the guard modelled from the spec.) With a caller's \<open>onClick\<close> callback
  \<open>f\<close>: when \<open>disabled\<close> or \<open>isLoading\<close> is true, any number of activation events
  leaves the caller's state unchanged and invokes \<open>f\<close> zero times; otherwise \<open>f\<close> is
  invoked once per event, in order.
\<close>

theorem C3_interaction_guard:
  assumes "others p ''onClick'' = Some (JFun f)"
  shows "dispatch (Button p) events (s, 0) =
     (if disabled p = Some True \<or> isLoading p = Some True then (s, 0)
      else (fold f events s, length events))"
proof (cases "disabled p = Some True \<or> isLoading p = Some True")
  case True
  then have "disabledOf (Button p) = Some True"
    by (auto simp: disabledOf_Button_eq)
  then show ?thesis
    using True by (simp add: dispatch_def fold_activate_disabled)
next
  case False
  then have "disabledOf (Button p) \<noteq> Some True"
    by (auto simp: disabledOf_Button_eq)
  moreover have "elemProps (Button p) ''onClick'' = Some (JFun f)"
    using assms by (simp add: elemProps_Button_onClick)
  ultimately show ?thesis
    using False by (simp add: dispatch_def fold_activate_enabled)
qed

theorem C3_interaction_guard_witness:
  "dispatch (Button \<lparr>variant = None, size_prop = None, isLoading = None, disabled = Some True,
      className = None, children = ''Disabled'',
      others = [''onClick'' \<mapsto> JFun (\<lambda>e log. log @ [e])]\<rparr>) [1, 2, 3 :: nat] ([], 0) = ([], 0) \<and>
   dispatch (Button \<lparr>variant = None, size_prop = None, isLoading = Some True, disabled = None,
      className = None, children = ''Loading'',
      others = [''onClick'' \<mapsto> JFun (\<lambda>e log. log @ [e])]\<rparr>) [1, 2, 3 :: nat] ([], 0) = ([], 0) \<and>
   dispatch (Button \<lparr>variant = None, size_prop = None, isLoading = None, disabled = None,
      className = None, children = ''Click me'',
      others = [''onClick'' \<mapsto> JFun (\<lambda>e log. log @ [e])]\<rparr>) [1, 2, 3 :: nat] ([], 0) =
     ([1, 2, 3], 3)"
  using
    C3_interaction_guard [of "\<lparr>variant = None, size_prop = None, isLoading = None,
      disabled = Some True, className = None, children = ''Disabled'',
      others = [''onClick'' \<mapsto> JFun (\<lambda>e log. log @ [e])]\<rparr>" "\<lambda>e log. log @ [e]"
      "[1, 2, 3 :: nat]" "[]"]
    C3_interaction_guard [of "\<lparr>variant = None, size_prop = None, isLoading = Some True,
      disabled = None, className = None, children = ''Loading'',
      others = [''onClick'' \<mapsto> JFun (\<lambda>e log. log @ [e])]\<rparr>" "\<lambda>e log. log @ [e]"
      "[1, 2, 3 :: nat]" "[]"]
    C3_interaction_guard [of "\<lparr>variant = None, size_prop = None, isLoading = None,
      disabled = None, className = None, children = ''Click me'',
      others = [''onClick'' \<mapsto> JFun (\<lambda>e log. log @ [e])]\<rparr>" "\<lambda>e log. log @ [e]"
      "[1, 2, 3 :: nat]" "[]"]
  by simp

text \<open>
  C4. The rendered output holds the busy indicator exactly when \<open>isLoading\<close> is true:
  the first child is the spinner when it is, the value \<open>false\<close> when it is not (or is
  missing), and the caller's content is never the indicator.
\<close>

theorem C4_busy_indicator:
  "busyIndicatorPresent (Button (p\<lparr>isLoading := Some busy\<rparr>)) = busy \<and>
   busyIndicatorPresent (Button p) = (isLoading p = Some True)"
proof
  show "busyIndicatorPresent (Button (p\<lparr>isLoading := Some busy\<rparr>)) = busy"
    by (simp add: busyIndicatorPresent_def elemChildren_Button withDefault_def)
  show "busyIndicatorPresent (Button p) = (isLoading p = Some True)"
    by (cases "isLoading p")
      (simp_all add: busyIndicatorPresent_def elemChildren_Button withDefault_def)
qed

text \<open>
  C5. Both tables are total on their enumerations: every variant and every size has
  exactly one row, so the lookup never yields \<open>undefined\<close>, the only fallback there is.
\<close>

theorem C5_resolvers_total:
  "(\<exists>!f. (v, f) \<in> set buttonVariants) \<and> index buttonVariants v \<noteq> None \<and>
   (\<exists>!f. (s, f) \<in> set buttonSizes) \<and> index buttonSizes s \<noteq> None"
proof (intro conjI)
  show "\<exists>!f. (v, f) \<in> set buttonVariants"
    using distinct_keys(1) index_buttonVariants by (rule unique_row)
  show "\<exists>!f. (s, f) \<in> set buttonSizes"
    using distinct_keys(2) index_buttonSizes by (rule unique_row)
  show "index buttonVariants v \<noteq> None"
    by (simp add: index_buttonVariants)
  show "index buttonSizes s \<noteq> None"
    by (simp add: index_buttonSizes)
qed

text \<open>
  C6. Every variant and every size resolves to a non-empty fragment, and two distinct
  variants (two distinct sizes) resolve to distinct fragments: as token sequences, as sets
  of tokens and as strings.
\<close>

theorem C6_fragments_distinct:
  "variantFragment v \<noteq> [] \<and> sizeFragment s \<noteq> [] \<and>
   (v \<noteq> v' \<longrightarrow> variantFragment v \<noteq> variantFragment v') \<and>
   (s \<noteq> s' \<longrightarrow> sizeFragment s \<noteq> sizeFragment s') \<and>
   (v \<noteq> v' \<longrightarrow> set (variantFragment v) \<noteq> set (variantFragment v')) \<and>
   (s \<noteq> s' \<longrightarrow> set (sizeFragment s) \<noteq> set (sizeFragment s')) \<and>
   (v \<noteq> v' \<longrightarrow> index buttonVariants v \<noteq> index buttonVariants v') \<and>
   (s \<noteq> s' \<longrightarrow> index buttonSizes s \<noteq> index buttonSizes s') \<and>
   index buttonVariants v \<noteq> Some [] \<and> index buttonSizes s \<noteq> Some []"
proof (intro conjI)
  show "variantFragment v \<noteq> []"
    by (cases v) (simp_all add: variantFragment_simps)
  show "sizeFragment s \<noteq> []"
    by (cases s) (simp_all add: sizeFragment_simps)
  show "v \<noteq> v' \<longrightarrow> variantFragment v \<noteq> variantFragment v'"
    by (cases v; cases v') (simp_all add: variantFragment_simps)
  show "s \<noteq> s' \<longrightarrow> sizeFragment s \<noteq> sizeFragment s'"
    by (cases s; cases s') (simp_all add: sizeFragment_simps)
  show "v \<noteq> v' \<longrightarrow> set (variantFragment v) \<noteq> set (variantFragment v')"
    using set_variantFragment_inj by blast
  show "s \<noteq> s' \<longrightarrow> set (sizeFragment s) \<noteq> set (sizeFragment s')"
    using set_sizeFragment_inj by blast
  show "v \<noteq> v' \<longrightarrow> index buttonVariants v \<noteq> index buttonVariants v'"
    by (cases v; cases v') (simp_all add: index_buttonVariants)
  show "s \<noteq> s' \<longrightarrow> index buttonSizes s \<noteq> index buttonSizes s'"
    by (cases s; cases s') (simp_all add: index_buttonSizes)
  show "index buttonVariants v \<noteq> Some []"
    by (cases v) (simp_all add: index_buttonVariants)
  show "index buttonSizes s \<noteq> Some []"
    by (cases s) (simp_all add: index_buttonSizes)
qed

theorem C6_fragments_distinct_witness:
  "primary \<noteq> secondary \<and> variantFragment primary \<noteq> variantFragment secondary \<and>
   small \<noteq> large \<and> sizeFragment small \<noteq> sizeFragment large \<and>
   set (variantFragment primary) \<noteq> set (variantFragment secondary) \<and>
   set (sizeFragment small) \<noteq> set (sizeFragment large) \<and>
   index buttonVariants primary \<noteq> index buttonVariants secondary \<and>
   index buttonSizes small \<noteq> index buttonSizes large"
  using C6_fragments_distinct [of primary small secondary large] by simp

text \<open>
  C7. Rendered with nothing but \<open>children\<close>, the defaults apply: the style fragment
  is the base fragment, then the primary one, then the medium one, and the disabled flag
  is false.
\<close>

theorem C7_defaults:
  "styleOf (Button \<lparr>variant = None, size_prop = None, isLoading = None, disabled = None,
      className = None, children = content, others = Map.empty\<rparr>) =
     tokens baseClasses @ variantFragment primary @ sizeFragment medium \<and>
   classOf (Button \<lparr>variant = None, size_prop = None, isLoading = None, disabled = None,
      className = None, children = content, others = Map.empty\<rparr>) =
     Some (baseClasses @ '' '' @ ''bg-blue-600 text-white hover:bg-blue-700 focus:ring-blue-500'' @
           '' '' @ ''px-4 py-2 text-base'') \<and>
   disabledOf (Button \<lparr>variant = None, size_prop = None, isLoading = None, disabled = None,
      className = None, children = content, others = Map.empty\<rparr>) = Some False"
proof (intro conjI)
  let ?p = "\<lparr>variant = None, size_prop = None, isLoading = None, disabled = None,
      className = None, children = content, others = Map.empty\<rparr>"
  show "styleOf (Button ?p) = tokens baseClasses @ variantFragment primary @ sizeFragment medium"
    by (simp add: styleOf_Button withDefault_def tokens_def)
  show "classOf (Button ?p) =
     Some (baseClasses @ '' '' @ ''bg-blue-600 text-white hover:bg-blue-700 focus:ring-blue-500'' @
           '' '' @ ''px-4 py-2 text-base'')"
    by (simp add: classOf_Button withDefault_def combinedClasses_def index_def
          buttonVariants_def buttonSizes_def interpolate_def baseClasses_def trim_def
          isWhiteSpace_def)
  show "disabledOf (Button ?p) = Some False"
    by (simp add: disabledOf_Button withDefault_def js_or_def)
qed

text \<open>
  C8. Every property under a name other than the six destructured ones is on the
  rendered element with the value the caller gave, and the caller's \<open>children\<close> are
  its last child, unchanged.
\<close>

theorem C8_pass_through:
  "(k \<notin> recognized \<longrightarrow> elemProps (Button p) k = others p k) \<and>
   last (elemChildren (Button p)) = CContent (children p) \<and>
   CContent (children p) \<in> set (elemChildren (Button p))"
  by (simp add: elemProps_Button_rest elemChildren_Button)

theorem C8_pass_through_witness:
  "''data-testid'' \<notin> recognized \<and>
   elemProps (Button \<lparr>variant = None, size_prop = None, isLoading = None, disabled = None,
      className = None, children = ''Test'',
      others = [''data-testid'' \<mapsto> (JStr ''custom-button'' :: unit jsval)]\<rparr>) ''data-testid'' =
     Some (JStr ''custom-button'')"
  using C8_pass_through [of "''data-testid''" "\<lparr>variant = None, size_prop = None, isLoading = None, disabled = None,
      className = None, children = ''Test'',
      others = [''data-testid'' \<mapsto> (JStr ''custom-button'' :: unit jsval)]\<rparr>"]
  by (simp add: recognized_def)

text \<open>
  C10. Whatever pass-through properties the caller supplies, the rendered element's
  \<open>className\<close> is the composed class string and its \<open>disabled\<close> is the effective
  flag: the rest props hold none of the destructured names, so the spread, though it
  comes last, replaces neither.
\<close>

theorem C10_no_overwrite:
  "classOf (Button (p\<lparr>others := extra\<rparr>)) = classOf (Button (p\<lparr>others := Map.empty\<rparr>)) \<and>
   disabledOf (Button (p\<lparr>others := extra\<rparr>)) = disabledOf (Button (p\<lparr>others := Map.empty\<rparr>)) \<and>
   elemProps (Button (p\<lparr>others := extra\<rparr>)) ''className'' =
     Some (JStr (combinedClasses baseClasses
       (index buttonVariants (withDefault (variant p) primary))
       (index buttonSizes (withDefault (size_prop p) medium))
       (withDefault (className p) []))) \<and>
   elemProps (Button (p\<lparr>others := extra\<rparr>)) ''disabled'' =
     Some (JBool (disabled p = Some True \<or> isLoading p = Some True)) \<and>
   dom (restProps (p\<lparr>others := extra\<rparr>)) \<inter> recognized = {}"
proof (intro conjI)
  show "classOf (Button (p\<lparr>others := extra\<rparr>)) = classOf (Button (p\<lparr>others := Map.empty\<rparr>))"
    by (simp add: classOf_Button)
  show "disabledOf (Button (p\<lparr>others := extra\<rparr>)) = disabledOf (Button (p\<lparr>others := Map.empty\<rparr>))"
    by (simp add: disabledOf_Button)
  show "elemProps (Button (p\<lparr>others := extra\<rparr>)) ''className'' =
     Some (JStr (combinedClasses baseClasses
       (index buttonVariants (withDefault (variant p) primary))
       (index buttonSizes (withDefault (size_prop p) medium))
       (withDefault (className p) [])))"
    by (simp add: Button_def Let_def map_add_def)
  show "elemProps (Button (p\<lparr>others := extra\<rparr>)) ''disabled'' =
     Some (JBool (disabled p = Some True \<or> isLoading p = Some True))"
    by (cases "isLoading p") (simp_all add: Button_def Let_def map_add_def js_or_eq withDefault_def)
  show "dom (restProps (p\<lparr>others := extra\<rparr>)) \<inter> recognized = {}"
    by (auto simp: restProps_def)
qed

end
